theory Spec2Isabelle
  imports Complex_Main "HOL-Library.Product_Lexorder"
begin

section \<open>The weather data downloader (app.py)\<close>

text \<open>
  The program is one script that runs top to bottom on every user interaction. The
  model follows the script: the frequency choice fixes the table, its date column and
  its hidden columns; the column probe and the fetch talk to the warehouse; the last
  fetched frame is kept in the session state; the plot rescales every selected column.
\<close>

subsection \<open>Table descriptors (lines 76 to 86)\<close>

datatype frequency = Daily | Weekly

definition table_name :: "frequency \<Rightarrow> string" where
  "table_name frequency =
     (case frequency of Daily \<Rightarrow> ''weather_daily'' | Weekly \<Rightarrow> ''weather_weekly'')"

definition date_column :: "frequency \<Rightarrow> string" where
  "date_column frequency =
     (case frequency of Daily \<Rightarrow> ''RECORD_DATE'' | Weekly \<Rightarrow> ''RECORD_WEEK'')"

definition hidden_columns :: "frequency \<Rightarrow> string list" where
  "hidden_columns frequency =
     (case frequency of
        Daily \<Rightarrow> [''DAILY_WEATHER_ID'', ''RECORD_DATE'']
      | Weekly \<Rightarrow> [''WEEKLY_WEATHER_ID'', ''RECORD_WEEK''])"

subsection \<open>Floats\<close>

text \<open>
  A float column of the data frame holds IEEE 754 binary64 values. A finite double is
  \<open>m * 2 ^ e\<close> with \<open>\<bar>m\<bar> < 2 ^ 53\<close> and \<open>- 1074 \<le> e \<le> 971\<close>; the other values
  are the two infinities and NaN. The model keeps one zero: the two zeros of the format
  compare equal and differ only as divisors.
\<close>

datatype f64 = Finite real | PosInf | NegInf | NaN

definition pow2 :: "int \<Rightarrow> real" where
  "pow2 e = (if 0 \<le> e then 2 ^ nat e else 1 / 2 ^ nat (- e))"


text \<open>
  Every operation rounds its exact result to the nearest double, a tie going to the even
  significand. \<open>expo\<close> is the exponent of the unit in the last place of the result,
  found by going up from that of the subnormal numbers; a result at or beyond
  \<open>2 ^ 1024 - 2 ^ 970\<close> in size overflows to an infinity.
\<close>

definition round_even :: "real \<Rightarrow> int" where
  "round_even x =
     (let f = \<lfloor>x\<rfloor> in
      if x - real_of_int f < 1 / 2 then f
      else if 1 / 2 < x - real_of_int f then f + 1
      else if even f then f else f + 1)"

function expo_from :: "int \<Rightarrow> real \<Rightarrow> int" where
  "expo_from e x = (if e < 971 \<and> pow2 (e + 53) \<le> x then expo_from (e + 1) x else e)"
  by pat_completeness auto
termination
  by (relation "measure (\<lambda>(e, x). nat (971 - e))") auto

declare expo_from.simps [simp del]

definition expo :: "real \<Rightarrow> int" where
  "expo x = expo_from (- 1074) \<bar>x\<bar>"

definition rnd_fin :: "real \<Rightarrow> real" where
  "rnd_fin x = real_of_int (round_even (x / pow2 (expo x))) * pow2 (expo x)"

definition threshold :: real where
  "threshold = 2 ^ 1024 - 2 ^ 970"

definition rnd :: "real \<Rightarrow> f64" where
  "rnd x =
     (if threshold \<le> x then PosInf
      else if x \<le> - threshold then NegInf
      else Finite (rnd_fin x))"

text \<open>
  Subtraction, division, ordering and \<open>!=\<close> of floats. NaN is contagious, is not
  ordered, and differs from everything, itself included. Division by zero takes the
  zero as positive; \<open>norm_series\<close> never gets there, since the difference of two
  different doubles is not zero.
\<close>

fun f_sub :: "f64 \<Rightarrow> f64 \<Rightarrow> f64" where
  "f_sub NaN b = NaN"
| "f_sub a NaN = NaN"
| "f_sub (Finite x) (Finite y) = rnd (x - y)"
| "f_sub (Finite x) PosInf = NegInf"
| "f_sub (Finite x) NegInf = PosInf"
| "f_sub PosInf PosInf = NaN"
| "f_sub NegInf NegInf = NaN"
| "f_sub PosInf b = PosInf"
| "f_sub NegInf b = NegInf"

fun f_div :: "f64 \<Rightarrow> f64 \<Rightarrow> f64" where
  "f_div NaN b = NaN"
| "f_div a NaN = NaN"
| "f_div (Finite x) (Finite y) =
     (if y = 0 then (if x = 0 then NaN else if 0 < x then PosInf else NegInf)
      else rnd (x / y))"
| "f_div (Finite x) b = Finite 0"
| "f_div PosInf (Finite y) = (if y < 0 then NegInf else PosInf)"
| "f_div NegInf (Finite y) = (if y < 0 then PosInf else NegInf)"
| "f_div a b = NaN"

fun f_le :: "f64 \<Rightarrow> f64 \<Rightarrow> bool" where
  "f_le NaN b = False"
| "f_le a NaN = False"
| "f_le NegInf b = True"
| "f_le a PosInf = True"
| "f_le (Finite x) (Finite y) = (x \<le> y)"
| "f_le a b = False"

definition f_ne :: "f64 \<Rightarrow> f64 \<Rightarrow> bool" where
  "f_ne a b = (a = NaN \<or> b = NaN \<or> a \<noteq> b)"

definition f_max :: "f64 \<Rightarrow> f64 \<Rightarrow> f64" where
  "f_max a b = (if f_le a b then b else a)"

definition f_min :: "f64 \<Rightarrow> f64 \<Rightarrow> f64" where
  "f_min a b = (if f_le b a then b else a)"

subsection \<open>Min-max scaling of one column (lines 213 to 218)\<close>

text \<open>
  A series is a float column; a missing value is NaN. The reductions
  \<open>series.max()\<close> and \<open>series.min()\<close> skip NaN and give NaN when nothing is left.
  The subtraction and the division work row by row in float arithmetic.
\<close>

type_synonym series = "f64 list"

definition present :: "series \<Rightarrow> series" where
  "present s = filter (\<lambda>v. v \<noteq> NaN) s"

definition series_max :: "series \<Rightarrow> f64" where
  "series_max s = (case present s of [] \<Rightarrow> NaN | x # xs \<Rightarrow> fold f_max xs x)"

definition series_min :: "series \<Rightarrow> f64" where
  "series_min s = (case present s of [] \<Rightarrow> NaN | x # xs \<Rightarrow> fold f_min xs x)"

definition norm_series :: "series \<Rightarrow> series" where
  "norm_series s =
     (if f_ne (series_max s) (series_min s)
      then map (\<lambda>v. f_div (f_sub v (series_min s))
                              (f_sub (series_max s) (series_min s))) s
      else s)"


subsection \<open>Frames, cells and the warehouse\<close>

text \<open>
  A date is (year, month, day), ordered lexicographically. A cell holds what the
  warehouse hands over for one value: nothing (NULL), an integer, a float, a text or a
  date. A frame is a stored table or a fetched result: its column names in order and
  its rows, each row a list of cells in column order. The value of a named column in a
  row is found by position; a row too short for the column reads as NULL.
\<close>

type_synonym date = "nat \<times> nat \<times> nat"

datatype cell = Null | Integer int | Float f64 | Text string | Day date

record frame =
  columns :: "string list"
  rows :: "cell list list"

definition cell_at :: "string list \<Rightarrow> cell list \<Rightarrow> string \<Rightarrow> cell" where
  "cell_at cols r c = (case map_of (zip cols r) c of Some v \<Rightarrow> v | None \<Rightarrow> Null)"

text \<open>
  Every exception of a warehouse call is caught by \<open>except Exception\<close>; the model
  names the causes. An index out of range, and whatever the arithmetic of the plot
  raises on a column, are exceptions nothing catches.
\<close>

datatype failure = Unreachable | NotAuthorized | UnknownObject string | InvalidIdentifier string

datatype exn = DataSourceError failure | IndexError | TypeError

text \<open>
  The warehouse answers for every fully qualified table path with the stored table or
  with a failure. \<open>connection\<close> is what connecting gives: the warehouse, or
  \<open>None\<close> when connecting raised. \<open>other_columns\<close> is what the data frame
  library makes of lines 213 to 218 on a column that is not a float column (integers,
  texts, dates, nothing but NULLs): the values to plot, or an exception. The program
  leaves that to the library, and the model takes it as given.
\<close>

type_synonym warehouse = "string \<Rightarrow> failure + frame"

record secrets =
  database :: string
  schema :: string

record env =
  snowflake :: secrets
  connection :: "warehouse option"
  other_columns :: "cell list \<Rightarrow> exn + cell list"

definition table_path :: "secrets \<Rightarrow> string \<Rightarrow> string" where
  "table_path s t = database s @ ''.'' @ schema s @ ''.'' @ t"

definition open_table :: "warehouse option \<Rightarrow> string \<Rightarrow> exn + frame" where
  "open_table conn path =
     (case conn of
        None \<Rightarrow> Inl (DataSourceError Unreachable)
      | Some w \<Rightarrow> (case w path of Inl f \<Rightarrow> Inl (DataSourceError f) | Inr t \<Rightarrow> Inr t))"

subsection \<open>What the page shows\<close>

datatype event =
    StError string exn
  | StWarning string
  | StSuccess string
  | StDataframe frame
  | StDownloadButton string string
  | StSubheader string
  | StPyplot "(string \<times> cell list) list"

subsection \<open>The connection (lines 34 to 52)\<close>

text \<open>
  \<open>get_connection\<close> catches a failure to connect, shows it and returns
  \<open>None\<close>; the result is cached with what was shown, so every later call shows the
  same and returns the same. Every later use of \<open>None\<close> raises, which
  \<open>open_table\<close> covers.
\<close>

definition get_connection :: "env \<Rightarrow> event list \<times> warehouse option" where
  "get_connection e =
     (case connection e of
        Some w \<Rightarrow> ([], Some w)
      | None \<Rightarrow> ([StError ''Failed to connect to Snowflake'' (DataSourceError Unreachable)], None))"

subsection \<open>The column probe (lines 57 to 68)\<close>

text \<open>
  \<open>SELECT * FROM path LIMIT 0\<close> returns no row and the description of every column
  of the table, in the table's order.
\<close>

definition get_table_columns :: "env \<Rightarrow> string \<Rightarrow> event list \<times> string list" where
  "get_table_columns e tn =
     (case get_connection e of
        (ev, conn) \<Rightarrow>
          (case open_table conn (table_path (snowflake e) tn) of
             Inr t \<Rightarrow> (ev, columns t)
           | Inl x \<Rightarrow> (ev @ [StError ''Error retrieving columns'' x], [])))"

subsection \<open>The selectable columns (lines 108 to 113)\<close>

definition selectable_columns :: "frequency \<Rightarrow> string list \<Rightarrow> string list" where
  "selectable_columns f all_columns =
     [col \<leftarrow> all_columns. col \<notin> set (hidden_columns f) \<and> col \<noteq> ''COUNTRY_CODE'']"

definition default_vars :: "string list" where
  "default_vars = [''TEMP_AVG'', ''APP_TEMP_AVG'', ''RAIN_SUM'', ''SNOWFALL_SUM'']"

definition default_select :: "frequency \<Rightarrow> string list \<Rightarrow> string list" where
  "default_select f all_columns = [col \<leftarrow> selectable_columns f all_columns. col \<in> set default_vars]"

subsection \<open>The query (lines 130 to 137)\<close>

text \<open>
  The statement is a fixed template with six holes. \<open>select_stmt\<close> holds what fills
  the holes; \<open>query_text\<close> is the text the f-string evaluates to. \<open>date_range\<close> is
  the tuple of the date picker, which has fewer than two entries while the user is
  choosing: \<open>date_range[1]\<close> then raises, before the \<open>try\<close>.
\<close>

record select_stmt =
  projection :: "string list"
  source :: string
  country_code :: string
  date_col :: string
  date_from :: date
  date_to :: date

definition columns_to_select :: "frequency \<Rightarrow> string list \<Rightarrow> string list" where
  "columns_to_select f selected_columns = hidden_columns f @ selected_columns"

definition query ::
  "secrets \<Rightarrow> frequency \<Rightarrow> string \<Rightarrow> date list \<Rightarrow> string list \<Rightarrow> exn + select_stmt" where
  "query s f country date_range selected_columns =
     (case date_range of
        d0 # d1 # _ \<Rightarrow>
          Inr \<lparr>projection = columns_to_select f selected_columns,
               source = table_path s (table_name f),
               country_code = country,
               date_col = date_column f,
               date_from = d0,
               date_to = d1\<rparr>
      | _ \<Rightarrow> Inl IndexError)"

fun join :: "string \<Rightarrow> string list \<Rightarrow> string" where
  "join sep [] = []"
| "join sep [x] = x"
| "join sep (x # y # ys) = x @ sep @ join sep (y # ys)"

fun digits :: "nat \<Rightarrow> string" where
  "digits n =
     (if n < 10 then [''0123456789'' ! n]
      else digits (n div 10) @ [''0123456789'' ! (n mod 10)])"

definition zfill :: "nat \<Rightarrow> string \<Rightarrow> string" where
  "zfill w s = replicate (w - length s) (CHR ''0'') @ s"

definition str_date :: "date \<Rightarrow> string" where
  "str_date d =
     (case d of (y, m, dd) \<Rightarrow>
        zfill 4 (digits y) @ ''-'' @ zfill 2 (digits m) @ ''-'' @ zfill 2 (digits dd))"

definition quoted :: "string \<Rightarrow> string" where
  "quoted s = [CHR 0x27] @ s @ [CHR 0x27]"

definition query_text :: "select_stmt \<Rightarrow> string" where
  "query_text q =
     [CHR 0x0A] @ ''    SELECT '' @ join '', '' (projection q) @
     [CHR 0x0A] @ ''    FROM '' @ source q @
     [CHR 0x0A] @ ''    WHERE COUNTRY_CODE = '' @ quoted (country_code q) @
     [CHR 0x0A] @ ''      AND '' @ date_col q @ '' BETWEEN '' @ quoted (str_date (date_from q)) @
                  '' AND '' @ quoted (str_date (date_to q)) @
     [CHR 0x0A] @ ''    ORDER BY '' @ date_col q @
     [CHR 0x0A] @ ''    ''"

text \<open>
  \<open>pd.read_sql(query, conn)\<close> passes the text and nothing else: the \<open>params\<close>
  argument is left at its default, so no value is bound separately from the text.
\<close>

record sql_call =
  sql :: string
  params :: "string list"

definition read_sql_call :: "select_stmt \<Rightarrow> sql_call" where
  "read_sql_call q = \<lparr>sql = query_text q, params = []\<rparr>"

subsection \<open>What the statement computes\<close>

text \<open>
  The warehouse evaluates the statement on the stored table: a name that is no column
  of the table is an error; a row qualifies when its COUNTRY_CODE is the given text and
  its date lies in the closed range (a NULL or a value that is no date never
  qualifies); the qualifying rows are ordered by the date column, ascending; each is
  cut down to the projection, in the projection's order.
\<close>

definition matches :: "select_stmt \<Rightarrow> string list \<Rightarrow> cell list \<Rightarrow> bool" where
  "matches q cols r =
     (cell_at cols r ''COUNTRY_CODE'' = Text (country_code q) \<and>
      (case cell_at cols r (date_col q) of
         Day d \<Rightarrow> date_from q \<le> d \<and> d \<le> date_to q
       | _ \<Rightarrow> False))"

definition day_of :: "cell \<Rightarrow> date" where
  "day_of c = (case c of Day d \<Rightarrow> d | _ \<Rightarrow> (0, 0, 0))"

definition read_sql :: "warehouse option \<Rightarrow> select_stmt \<Rightarrow> exn + frame" where
  "read_sql conn q =
     (case open_table conn (source q) of
        Inl x \<Rightarrow> Inl x
      | Inr t \<Rightarrow>
          (case [c \<leftarrow> projection q @ [''COUNTRY_CODE'', date_col q]. c \<notin> set (columns t)] of
             c # _ \<Rightarrow> Inl (DataSourceError (InvalidIdentifier c))
           | [] \<Rightarrow>
               Inr \<lparr>columns = projection q,
                    rows = map (\<lambda>r. map (cell_at (columns t) r) (projection q))
                             (sort_key (\<lambda>r. day_of (cell_at (columns t) r (date_col q)))
                                (filter (matches q (columns t)) (rows t)))\<rparr>))"

subsection \<open>The script (lines 73 to 231)\<close>

text \<open>
  One run of the script takes the state of the widgets and the session's stored frame
  and gives what the page shows, the stored frame afterwards, and how the run ended:
  to the last line, at \<open>st.stop()\<close>, or with an exception nothing caught.
  \<open>selected_columns\<close> is what the multiselect returned.
\<close>

datatype download_format = CSV | Excel

record inputs =
  frequency :: frequency
  country :: string
  date_range :: "date list"
  selected_columns :: "string list"
  download_data :: bool
  download_format :: download_format

datatype outcome = Finished | Stopped | Raised exn

record run =
  events :: "event list"
  session_df :: "frame option"
  outcome :: outcome

definition no_columns_warning :: string where
  "no_columns_warning =
     ''No selectable variables have been chosen. Only hidden columns will be included in the download and visualization.''"

text \<open>
  The button's branch (lines 128 to 151). The statement is built before the \<open>try\<close>;
  the read and the store into the session are inside it, and the store comes after
  the read.
\<close>

definition fetch :: "env \<Rightarrow> inputs \<Rightarrow> frame option \<Rightarrow> exn + event list \<times> frame option" where
  "fetch e i st =
     (case query (snowflake e) (frequency i) (country i) (date_range i) (selected_columns i) of
        Inl x \<Rightarrow> Inl x
      | Inr q \<Rightarrow>
          (case get_connection e of
             (ev, conn) \<Rightarrow>
               (case read_sql conn q of
                  Inr df \<Rightarrow>
                    Inr (ev @ [StSuccess ''Data retrieved successfully!'', StDataframe df], Some df)
                | Inl x \<Rightarrow> Inr (ev @ [StError ''Error retrieving data'' x], st))))"

text \<open>
  The download button (lines 153 to 183). The bytes offered, which a library call
  produces from the frame, are not part of the model.
\<close>

definition export :: "inputs \<Rightarrow> frame option \<Rightarrow> event list" where
  "export i st =
     (case st of
        None \<Rightarrow> []
      | Some df \<Rightarrow>
          (case download_format i of
             CSV \<Rightarrow> [StDownloadButton ''Download as CSV'' ''weather_data.csv'']
           | Excel \<Rightarrow> [StDownloadButton ''Download as Excel'' ''weather_data.xlsx'']))"

text \<open>
  The plot (lines 188 to 231). A column whose cells are floats and NULLs, with at least
  one float, is a float column of the data frame, NULL read as NaN, and is rescaled by
  \<open>norm_series\<close>; any other column is left to \<open>other_columns\<close>. An exception
  of the loop is caught by nothing. The conversion of the date column (lines 196 to
  199) changes no value the model keeps and reports its own failure before the plot
  goes on; it is left out.
\<close>

definition df_empty :: "frame \<Rightarrow> bool" where
  "df_empty df = (columns df = [] \<or> rows df = [])"

definition column :: "frame \<Rightarrow> string \<Rightarrow> cell list" where
  "column df c = map (\<lambda>r. cell_at (columns df) r c) (rows df)"

definition float_column :: "cell list \<Rightarrow> series option" where
  "float_column cs =
     (if list_all (\<lambda>c. case c of Null \<Rightarrow> True | Float v \<Rightarrow> True | _ \<Rightarrow> False) cs \<and>
         list_ex (\<lambda>c. case c of Float v \<Rightarrow> True | _ \<Rightarrow> False) cs
      then Some (map (\<lambda>c. case c of Float v \<Rightarrow> v | _ \<Rightarrow> NaN) cs)
      else None)"

definition normalized :: "env \<Rightarrow> cell list \<Rightarrow> exn + cell list" where
  "normalized e cs =
     (case float_column cs of
        Some s \<Rightarrow> Inr (map Float (norm_series s))
      | None \<Rightarrow> other_columns e cs)"

fun plot_lines :: "env \<Rightarrow> frame \<Rightarrow> string list \<Rightarrow> exn + (string \<times> cell list) list" where
  "plot_lines e df [] = Inr []"
| "plot_lines e df (var # vars) =
     (if var \<notin> set (columns df) then plot_lines e df vars
      else
        (case normalized e (column df var) of
           Inl x \<Rightarrow> Inl x
         | Inr l \<Rightarrow>
             (case plot_lines e df vars of
                Inl x \<Rightarrow> Inl x
              | Inr ls \<Rightarrow> Inr ((var, l) # ls))))"

definition missing_date_warning :: "frequency \<Rightarrow> string" where
  "missing_date_warning f =
     ''The data does not contain the required date column '' @ quoted (date_column f) @
     '' for plotting.''"

definition visualization :: "env \<Rightarrow> inputs \<Rightarrow> frame option \<Rightarrow> event list \<times> exn option" where
  "visualization e i st =
     (case st of
        None \<Rightarrow> ([], None)
      | Some df \<Rightarrow>
          if df_empty df then ([], None)
          else if date_column (frequency i) \<notin> set (columns df)
          then ([StSubheader ''Data Visualization'',
                 StWarning (missing_date_warning (frequency i))], None)
          else
            (case plot_lines e df (selected_columns i) of
               Inl x \<Rightarrow> ([StSubheader ''Data Visualization''], Some x)
             | Inr ls \<Rightarrow> ([StSubheader ''Data Visualization'', StPyplot ls], None)))"

definition app :: "env \<Rightarrow> inputs \<Rightarrow> frame option \<Rightarrow> run" where
  "app e i st =
     (case get_table_columns e (table_name (frequency i)) of
        (ev0, all_columns) \<Rightarrow>
          if all_columns = [] then \<lparr>events = ev0, session_df = st, outcome = Stopped\<rparr>
          else
            (let ev1 = ev0 @ (if selected_columns i = [] then [StWarning no_columns_warning]
                              else [])
             in case (if download_data i then fetch e i st else Inr ([], st)) of
                  Inl x \<Rightarrow> \<lparr>events = ev1, session_df = st, outcome = Raised x\<rparr>
                | Inr (ev2, st') \<Rightarrow>
                    (case visualization e i st' of
                       (ev3, r) \<Rightarrow>
                         \<lparr>events = ev1 @ ev2 @ export i st' @ ev3,
                          session_df = st',
                          outcome = (case r of None \<Rightarrow> Finished | Some x \<Rightarrow> Raised x)\<rparr>)))"

text \<open>
  The inputs a fetch is meant for: the warehouse answers for the table, the table has
  the frequency's hidden columns and the country column, every selected column is one
  of the options the multiselect offered, and the date picker holds both bounds.
\<close>

definition valid_fetch :: "env \<Rightarrow> inputs \<Rightarrow> bool" where
  "valid_fetch e i =
     (case open_table (connection e) (table_path (snowflake e) (table_name (frequency i))) of
        Inl x \<Rightarrow> False
      | Inr t \<Rightarrow>
          set (hidden_columns (frequency i)) \<subseteq> set (columns t) \<and>
          ''COUNTRY_CODE'' \<in> set (columns t) \<and>
          set (selected_columns i) \<subseteq> set (selectable_columns (frequency i) (columns t)) \<and>
          2 \<le> length (date_range i))"

subsection \<open>Small inputs to run the program on\<close>



definition daily_table :: frame where
  "daily_table =
     \<lparr>columns = [''DAILY_WEATHER_ID'', ''COUNTRY_CODE'', ''RECORD_DATE'', ''TEMP_AVG'', ''RAIN_SUM''],
      rows = [[Integer 4, Text ''EE'', Day (2020, 1, 3), Float (Finite 2), Float (Finite 0)],
              [Integer 1, Text ''EE'', Day (2020, 1, 1), Float (Finite (- 1)), Float (Finite 5)],
              [Integer 2, Text ''LV'', Day (2020, 1, 1), Float (Finite 3), Float (Finite 1)],
              [Integer 5, Text ''EE'', Day (2020, 1, 4), Float (Finite 6), Float (Finite 0)],
              [Integer 3, Text ''EE'', Day (2020, 1, 2), Float (Finite 0), Null]]\<rparr>"

text \<open>The weekly table of this warehouse has lost its date column.\<close>

definition weekly_table :: frame where
  "weekly_table =
     \<lparr>columns = [''WEEKLY_WEATHER_ID'', ''COUNTRY_CODE'', ''TEMP_AVG''],
      rows = [[Integer 1, Text ''EE'', Float (Finite 2)]]\<rparr>"

definition demo_env :: env where
  "demo_env =
     \<lparr>snowflake = \<lparr>database = ''WX'', schema = ''PUBLIC''\<rparr>,
      connection =
        Some (\<lambda>p. if p = ''WX.PUBLIC.weather_daily'' then Inr daily_table
                   else if p = ''WX.PUBLIC.weather_weekly'' then Inr weekly_table
                   else Inl (UnknownObject p)),
      other_columns = (\<lambda>cs. Inr cs)\<rparr>"

definition offline_env :: env where
  "offline_env =
     \<lparr>snowflake = \<lparr>database = ''WX'', schema = ''PUBLIC''\<rparr>, connection = None,
      other_columns = (\<lambda>cs. Inr cs)\<rparr>"

definition locked_env :: env where
  "locked_env =
     \<lparr>snowflake = \<lparr>database = ''WX'', schema = ''PUBLIC''\<rparr>,
      connection = Some (\<lambda>p. Inl NotAuthorized),
      other_columns = (\<lambda>cs. Inr cs)\<rparr>"

definition demo_inputs :: inputs where
  "demo_inputs =
     \<lparr>frequency = Daily, country = ''EE'', date_range = [(2020, 1, 1), (2020, 1, 3)],
      selected_columns = [''TEMP_AVG''], download_data = True, download_format = CSV\<rparr>"

definition demo_df :: frame where
  "demo_df = \<lparr>columns = [''DAILY_WEATHER_ID'', ''RECORD_DATE'', ''TEMP_AVG''],
           rows = [[Integer 1, Day (2020, 1, 1), Float (Finite (- 1))],
              [Integer 3, Day (2020, 1, 2), Float (Finite 0)],
              [Integer 4, Day (2020, 1, 3), Float (Finite 2)]]\<rparr>"

definition demo_query :: select_stmt where
  "demo_query =
     \<lparr>projection = [''DAILY_WEATHER_ID'', ''RECORD_DATE'', ''TEMP_AVG''],
      source = ''WX.PUBLIC.weather_daily'', country_code = ''EE'',
      date_col = ''RECORD_DATE'', date_from = (2020, 1, 1), date_to = (2020, 1, 3)\<rparr>"

section \<open>Properties\<close>

subsection \<open>The connection\<close>

lemma snd_get_connection: "snd (get_connection e) = connection e"
  by (simp add: get_connection_def split: option.splits)

lemma open_table_connected:
  assumes "open_table (connection e) p = Inr t"
  shows "get_connection e = ([], connection e)"
  using assms by (auto simp: get_connection_def open_table_def split: option.splits)

lemma get_connection_only_errors:
  "x \<in> set (fst (get_connection e)) \<Longrightarrow> \<exists>m y. x = StError m y"
  by (auto simp: get_connection_def split: option.splits)

subsection \<open>Rounding to a double\<close>
































subsection \<open>The reductions of a column\<close>















subsection \<open>Min-max scaling\<close>

lemma f_sub_NaN_right: "f_sub a NaN = NaN"
  by (cases a) simp_all



















subsection \<open>The statement and its result\<close>

lemma query_Inr:
  assumes "query s f c dr sel = Inr q"
  obtains d0 d1 rest where "dr = d0 # d1 # rest"
    and "q = \<lparr>projection = hidden_columns f @ sel, source = table_path s (table_name f),
              country_code = c, date_col = date_column f, date_from = d0, date_to = d1\<rparr>"
  using assms
  by (auto simp: query_def columns_to_select_def split: list.splits)

lemma read_sql_Inr:
  assumes "read_sql conn q = Inr df"
  obtains t where "open_table conn (source q) = Inr t"
    and "set (projection q) \<subseteq> set (columns t)"
    and "''COUNTRY_CODE'' \<in> set (columns t)"
    and "date_col q \<in> set (columns t)"
    and "df = \<lparr>columns = projection q,
               rows = map (\<lambda>r. map (cell_at (columns t) r) (projection q))
                        (sort_key (\<lambda>r. day_of (cell_at (columns t) r (date_col q)))
                           (filter (matches q (columns t)) (rows t)))\<rparr>"
proof -
  obtain t where t: "open_table conn (source q) = Inr t"
    using assms by (auto simp: read_sql_def split: sum.splits)
  let ?bad = "[c \<leftarrow> projection q @ [''COUNTRY_CODE'', date_col q]. c \<notin> set (columns t)]"
  have unf: "read_sql conn q =
      (case ?bad of
         c # _ \<Rightarrow> Inl (DataSourceError (InvalidIdentifier c))
       | [] \<Rightarrow>
           Inr \<lparr>columns = projection q,
                rows = map (\<lambda>r. map (cell_at (columns t) r) (projection q))
                         (sort_key (\<lambda>r. day_of (cell_at (columns t) r (date_col q)))
                            (filter (matches q (columns t)) (rows t)))\<rparr>)"
    by (simp only: read_sql_def t sum.case)
  have bad: "?bad = []"
  proof (cases ?bad)
    case Nil
    then show ?thesis .
  next
    case (Cons c cs)
    then show ?thesis using assms unfolding unf by (simp only: list.case sum.distinct)
  qed
  have "\<forall>c \<in> set (projection q @ [''COUNTRY_CODE'', date_col q]). c \<in> set (columns t)"
    using bad unfolding filter_empty_conv by blast
  then have a: "set (projection q) \<subseteq> set (columns t)" "''COUNTRY_CODE'' \<in> set (columns t)"
    "date_col q \<in> set (columns t)" by auto
  have "df = \<lparr>columns = projection q,
               rows = map (\<lambda>r. map (cell_at (columns t) r) (projection q))
                        (sort_key (\<lambda>r. day_of (cell_at (columns t) r (date_col q)))
                           (filter (matches q (columns t)) (rows t)))\<rparr>"
    using assms unfolding unf bad by simp
  with t a show thesis by (rule that)
qed

lemma read_sql_ok:
  assumes "open_table conn (source q) = Inr t"
    and "set (projection q) \<subseteq> set (columns t)"
    and "''COUNTRY_CODE'' \<in> set (columns t)"
    and "date_col q \<in> set (columns t)"
  shows "\<exists>df. read_sql conn q = Inr df"
proof -
  have "[c \<leftarrow> projection q @ [''COUNTRY_CODE'', date_col q]. c \<notin> set (columns t)] = []"
    using assms(2-4) unfolding filter_empty_conv by auto
  then show ?thesis using assms(1) by (simp add: read_sql_def)
qed

lemma read_sql_Inl:
  assumes "read_sql conn q = Inl x"
  shows "\<exists>c. x = DataSourceError c"
  using assms
  by (auto simp: read_sql_def open_table_def split: sum.splits option.splits list.splits)

lemma fetch_fresh:
  assumes "fetch e i st = Inr (ev, Some df)" and "StDataframe df \<in> set ev"
  obtains q where
    "query (snowflake e) (frequency i) (country i) (date_range i) (selected_columns i) = Inr q"
    and "read_sql (connection e) q = Inr df"
  using assms
  by (auto simp: fetch_def get_connection_def split: sum.splits option.splits)

lemma date_column_hidden: "date_column f \<in> set (hidden_columns f)"
  by (cases f) (simp_all add: date_column_def hidden_columns_def)


lemma valid_fetch_ok:
  assumes "valid_fetch e i"
  obtains q df where
    "query (snowflake e) (frequency i) (country i) (date_range i) (selected_columns i) = Inr q"
    and "read_sql (connection e) q = Inr df"
    and "fetch e i st = Inr ([StSuccess ''Data retrieved successfully!'', StDataframe df], Some df)"
proof -
  let ?f = "frequency i"
  obtain t where t: "open_table (connection e) (table_path (snowflake e) (table_name ?f)) = Inr t"
    and hid: "set (hidden_columns ?f) \<subseteq> set (columns t)"
    and cc: "''COUNTRY_CODE'' \<in> set (columns t)"
    and sel: "set (selected_columns i) \<subseteq> set (selectable_columns ?f (columns t))"
    and len: "2 \<le> length (date_range i)"
    using assms by (auto simp: valid_fetch_def split: sum.splits)
  obtain d0 d1 rest where dr: "date_range i = d0 # d1 # rest"
    using len by (cases "date_range i"; cases "tl (date_range i)") auto
  define q where "q = \<lparr>projection = hidden_columns ?f @ selected_columns i,
      source = table_path (snowflake e) (table_name ?f), country_code = country i,
      date_col = date_column ?f, date_from = d0, date_to = d1\<rparr>"
  have q: "query (snowflake e) ?f (country i) (date_range i) (selected_columns i) = Inr q"
    by (simp add: query_def dr q_def columns_to_select_def)
  have "set (selected_columns i) \<subseteq> set (columns t)"
    using sel by (auto simp: selectable_columns_def)
  then have p: "set (projection q) \<subseteq> set (columns t)"
    using hid by (simp add: q_def)
  have d: "date_col q \<in> set (columns t)"
    using hid date_column_hidden[of ?f] by (auto simp: q_def)
  have "open_table (connection e) (source q) = Inr t"
    using t by (simp add: q_def)
  from read_sql_ok[OF this p cc d] obtain df where df: "read_sql (connection e) q = Inr df" ..
  have "get_connection e = ([], connection e)"
    using t by (rule open_table_connected)
  then have "fetch e i st = Inr ([StSuccess ''Data retrieved successfully!'', StDataframe df], Some df)"
    by (simp add: fetch_def q df)
  with q df show thesis by (rule that)
qed

lemma fresh_columns:
  assumes "fetch e i st = Inr (ev, Some df)" and "StDataframe df \<in> set ev"
  shows "columns df = hidden_columns (frequency i) @ selected_columns i"
proof -
  from assms obtain q where
    q: "query (snowflake e) (frequency i) (country i) (date_range i) (selected_columns i) = Inr q"
    and r: "read_sql (connection e) q = Inr df"
    by (rule fetch_fresh)
  from r have "columns df = projection q" by (rule read_sql_Inr) simp
  moreover from q have "projection q = hidden_columns (frequency i) @ selected_columns i"
    by (rule query_Inr) simp
  ultimately show ?thesis by simp
qed






subsection \<open>Runs of the script\<close>

lemma probe_ok:
  assumes "open_table (connection e) (table_path (snowflake e) tn) = Inr t"
  shows "get_table_columns e tn = ([], columns t)"
  using assms open_table_connected[OF assms] by (simp add: get_table_columns_def)

lemma visualization_nothing_selected: "visualization e i (Some df) = (ev, r) \<Longrightarrow> selected_columns i = [] \<Longrightarrow> r = None"
  by (auto simp: visualization_def split: if_splits)

lemma visualization_no_error: "StError m x \<notin> set (fst (visualization e i st))"
  by (auto simp: visualization_def split: option.splits sum.splits)

lemma export_no_error: "StError m x \<notin> set (export i st)"
  by (auto simp: export_def split: option.splits download_format.splits)

text \<open>
  C5. With nothing selected, a valid fetch still succeeds: the run stores a frame whose
  columns are exactly the hidden columns, shows it, ends normally, shows no error, and
  shows the warning that only hidden columns are included.
\<close>

theorem empty_selection_fetches_hidden_columns:
  assumes "selected_columns i = []" and "valid_fetch e i" and "download_data i"
  shows "\<exists>df. session_df (app e i st) = Some df
            \<and> columns df = hidden_columns (frequency i)
            \<and> StDataframe df \<in> set (events (app e i st))
            \<and> StWarning no_columns_warning \<in> set (events (app e i st))
            \<and> (\<forall>m x. StError m x \<notin> set (events (app e i st)))
            \<and> outcome (app e i st) = Finished"
proof -
  let ?tn = "table_name (frequency i)"
  obtain t where t: "open_table (connection e) (table_path (snowflake e) ?tn) = Inr t"
    and cc: "''COUNTRY_CODE'' \<in> set (columns t)"
    using assms(2) by (auto simp: valid_fetch_def split: sum.splits)
  have probe: "get_table_columns e ?tn = ([], columns t)" using t by (rule probe_ok)
  have ne: "columns t \<noteq> []" using cc by auto
  obtain q df where
    f: "fetch e i st = Inr ([StSuccess ''Data retrieved successfully!'', StDataframe df], Some df)"
    using assms(2) by (rule valid_fetch_ok)
  have cols: "columns df = hidden_columns (frequency i)"
    using fresh_columns[OF f] assms(1) by simp
  obtain ev3 r where v: "visualization e i (Some df) = (ev3, r)" by (cases "visualization e i (Some df)")
  have r: "r = None" using v assms(1) by (rule visualization_nothing_selected)
  have noerr3: "\<And>m x. StError m x \<notin> set ev3"
    using visualization_no_error[of _ _ e i "Some df"] v by simp
  have run: "app e i st =
      \<lparr>events = [StWarning no_columns_warning, StSuccess ''Data retrieved successfully!'',
                 StDataframe df] @ export i (Some df) @ ev3,
       session_df = Some df, outcome = Finished\<rparr>"
    using probe ne f v r assms(1,3) by (simp add: app_def)
  show ?thesis
    using cols noerr3 export_no_error[of _ _ i "Some df"] by (simp add: run)
qed

theorem empty_selection_fetches_hidden_columns_witness:
  "selected_columns (demo_inputs\<lparr>selected_columns := []\<rparr>) = []
   \<and> valid_fetch demo_env (demo_inputs\<lparr>selected_columns := []\<rparr>)
   \<and> download_data (demo_inputs\<lparr>selected_columns := []\<rparr>)
   \<and> (\<exists>df. session_df (app demo_env (demo_inputs\<lparr>selected_columns := []\<rparr>) None) = Some df
          \<and> columns df = [''DAILY_WEATHER_ID'', ''RECORD_DATE''])
   \<and> outcome (app demo_env (demo_inputs\<lparr>selected_columns := []\<rparr>) None) = Finished"
proof -
  let ?i = "demo_inputs\<lparr>selected_columns := []\<rparr>"
  have a: "selected_columns ?i = []" by simp
  have b: "valid_fetch demo_env ?i"
    by (simp add: valid_fetch_def demo_env_def demo_inputs_def open_table_def table_path_def
        table_name_def daily_table_def hidden_columns_def selectable_columns_def)
  have c: "download_data ?i" by (simp add: demo_inputs_def)
  have h: "hidden_columns (frequency ?i) = [''DAILY_WEATHER_ID'', ''RECORD_DATE'']"
    by (simp add: demo_inputs_def hidden_columns_def)
  show ?thesis
    using empty_selection_fetches_hidden_columns [OF a b c, of None] a b c unfolding h by auto
qed

text \<open>
  C6. When the statement is built and the read fails, the failure is a data source
  error, the fetch reports it and gives back the stored frame it was given; the whole
  run leaves the stored frame as it was, and a run that reached the fetch shows the
  error.
\<close>

theorem fetch_failure_keeps_session:
  assumes "query (snowflake e) (frequency i) (country i) (date_range i) (selected_columns i) = Inr q"
    and "read_sql (connection e) q = Inl x"
  shows "fetch e i st = Inr (fst (get_connection e) @ [StError ''Error retrieving data'' x], st)
       \<and> (\<exists>c. x = DataSourceError c)
       \<and> session_df (app e i st) = st
       \<and> (download_data i \<and> outcome (app e i st) \<noteq> Stopped \<longrightarrow>
            StError ''Error retrieving data'' x \<in> set (events (app e i st)))"
proof -
  have f: "fetch e i st = Inr (fst (get_connection e) @ [StError ''Error retrieving data'' x], st)"
    using assms by (simp add: fetch_def split_beta snd_get_connection)
  have x: "\<exists>c. x = DataSourceError c" using assms(2) by (rule read_sql_Inl)
  have s: "session_df (app e i st) = st"
    using f by (auto simp: app_def Let_def split: prod.splits sum.splits)
  have ev: "StError ''Error retrieving data'' x \<in> set (events (app e i st))"
    if "download_data i" "outcome (app e i st) \<noteq> Stopped"
    using that f by (auto simp: app_def Let_def split: prod.splits sum.splits if_splits)
  from f x s ev show ?thesis by blast
qed

theorem fetch_failure_keeps_session_witness:
  "fetch demo_env (demo_inputs\<lparr>frequency := Weekly\<rparr>) (Some demo_df) =
     Inr ([StError ''Error retrieving data'' (DataSourceError (InvalidIdentifier ''RECORD_WEEK''))],
          Some demo_df)
   \<and> session_df (app demo_env (demo_inputs\<lparr>frequency := Weekly\<rparr>) (Some demo_df)) = Some demo_df
   \<and> StError ''Error retrieving data'' (DataSourceError (InvalidIdentifier ''RECORD_WEEK''))
       \<in> set (events (app demo_env (demo_inputs\<lparr>frequency := Weekly\<rparr>) (Some demo_df)))"
proof -
  let ?i = "demo_inputs\<lparr>frequency := Weekly\<rparr>"
  let ?q = "\<lparr>projection = [''WEEKLY_WEATHER_ID'', ''RECORD_WEEK'', ''TEMP_AVG''],
            source = ''WX.PUBLIC.weather_weekly'', country_code = ''EE'',
            date_col = ''RECORD_WEEK'', date_from = (2020, 1, 1), date_to = (2020, 1, 3)\<rparr>"
  have q: "query (snowflake demo_env) (frequency ?i) (country ?i) (date_range ?i)
             (selected_columns ?i) = Inr ?q"
    by (simp add: query_def demo_env_def demo_inputs_def columns_to_select_def
        hidden_columns_def table_path_def table_name_def date_column_def)
  have r: "read_sql (connection demo_env) ?q = Inl (DataSourceError (InvalidIdentifier ''RECORD_WEEK''))"
    by (simp add: read_sql_def demo_env_def open_table_def weekly_table_def)
  have d: "download_data ?i" by (simp add: demo_inputs_def)
  have o: "outcome (app demo_env ?i (Some demo_df)) \<noteq> Stopped"
    by (simp add: app_def get_table_columns_def get_connection_def demo_env_def demo_inputs_def open_table_def
        table_path_def table_name_def weekly_table_def Let_def split: prod.splits sum.splits option.splits)
  show ?thesis
    using fetch_failure_keeps_session [OF q r, of "Some demo_df"] d o
    by (simp add: get_connection_def demo_env_def)
qed

text \<open>
  C7. When the warehouse cannot be reached or refuses the table, the column probe
  reports a data source error and returns the empty list, and the run stops there: it
  shows nothing but that error, leaves the stored frame alone, and reaches neither the
  fetch nor the export nor the plot.
\<close>

theorem column_probe_failure_halts:
  assumes "open_table (connection e)
             (table_path (snowflake e) (table_name (frequency i))) = Inl x"
  shows "get_table_columns e (table_name (frequency i))
           = (fst (get_connection e) @ [StError ''Error retrieving columns'' x], [])
       \<and> (\<exists>c. x = DataSourceError c)
       \<and> app e i st = \<lparr>events = fst (get_connection e) @ [StError ''Error retrieving columns'' x],
                        session_df = st, outcome = Stopped\<rparr>"
proof -
  have g: "get_table_columns e (table_name (frequency i))
           = (fst (get_connection e) @ [StError ''Error retrieving columns'' x], [])"
    using assms by (simp add: get_table_columns_def split_beta snd_get_connection)
  have x: "\<exists>c. x = DataSourceError c"
    using assms by (auto simp: open_table_def split: option.splits sum.splits)
  have "app e i st = \<lparr>events = fst (get_connection e) @ [StError ''Error retrieving columns'' x],
                        session_df = st, outcome = Stopped\<rparr>"
    by (simp add: app_def g)
  with g x show ?thesis by blast
qed

theorem column_probe_failure_halts_witness:
  "app offline_env demo_inputs (Some demo_df) =
     \<lparr>events = [StError ''Failed to connect to Snowflake'' (DataSourceError Unreachable),
                StError ''Error retrieving columns'' (DataSourceError Unreachable)],
      session_df = Some demo_df, outcome = Stopped\<rparr>
   \<and> app locked_env demo_inputs (Some demo_df) =
     \<lparr>events = [StError ''Error retrieving columns'' (DataSourceError NotAuthorized)],
      session_df = Some demo_df, outcome = Stopped\<rparr>"
proof -
  have a: "open_table (connection offline_env)
             (table_path (snowflake offline_env) (table_name (frequency demo_inputs)))
           = Inl (DataSourceError Unreachable)"
    by (simp add: open_table_def offline_env_def)
  have b: "open_table (connection locked_env)
             (table_path (snowflake locked_env) (table_name (frequency demo_inputs)))
           = Inl (DataSourceError NotAuthorized)"
    by (simp add: open_table_def locked_env_def)
  show ?thesis
    using column_probe_failure_halts [OF a, of "Some demo_df"]
      column_probe_failure_halts [OF b, of "Some demo_df"]
    by (simp add: get_connection_def offline_env_def locked_env_def)
qed

lemma warnings_differ: "no_columns_warning \<noteq> missing_date_warning f"
  by (simp add: no_columns_warning_def missing_date_warning_def)

lemma export_only_buttons: "x \<in> set (export i st) \<Longrightarrow> \<exists>l n. x = StDownloadButton l n"
  by (auto simp: export_def split: option.splits download_format.splits)

lemma visualization_has_date:
  assumes "date_column (frequency i) \<in> set (columns df)"
  shows "StWarning w \<notin> set (fst (visualization e i (Some df)))"
  using assms by (auto simp: visualization_def split: sum.splits)

lemma visualization_no_frame: "StDataframe df \<notin> set (fst (visualization e i st))"
  by (auto simp: visualization_def split: option.splits sum.splits)

lemma probe_events: "x \<in> set (fst (get_table_columns e tn)) \<Longrightarrow> \<exists>m y. x = StError m y"
  by (auto simp: get_table_columns_def get_connection_def split: sum.splits option.splits)

lemma app_shows_frame:
  assumes "StDataframe df \<in> set (events (app e i st))"
  shows "download_data i" and "\<exists>ev. fetch e i st = Inr (ev, Some df) \<and> StDataframe df \<in> set ev"
    and "session_df (app e i st) = Some df"
    and "events (app e i st) =
          fst (get_table_columns e (table_name (frequency i)))
          @ (if selected_columns i = [] then [StWarning no_columns_warning] else [])
          @ [StSuccess ''Data retrieved successfully!'', StDataframe df]
          @ export i (Some df) @ fst (visualization e i (Some df))"
proof -
  obtain ev0 ac where g: "get_table_columns e (table_name (frequency i)) = (ev0, ac)"
    by (cases "get_table_columns e (table_name (frequency i))")
  have nf0: "StDataframe df \<notin> set ev0"
    using probe_events[of "StDataframe df" e "table_name (frequency i)"] g by auto
  have ac: "ac \<noteq> []"
    using assms nf0 by (auto simp: app_def g)
  let ?ev1 = "ev0 @ (if selected_columns i = [] then [StWarning no_columns_warning] else [])"
  have nf1: "StDataframe df \<notin> set ?ev1" using nf0 by simp
  show dl: "download_data i"
  proof (rule ccontr)
    assume n: "\<not> download_data i"
    obtain ev3 r where v: "visualization e i st = (ev3, r)" by (cases "visualization e i st")
    have "events (app e i st) = ?ev1 @ export i st @ ev3"
      using n ac v by (simp add: app_def g Let_def)
    moreover have "StDataframe df \<notin> set ev3"
      using visualization_no_frame[of df e i st] v by simp
    moreover have "StDataframe df \<notin> set (export i st)"
      using export_only_buttons[of "StDataframe df" i st] by auto
    ultimately show False using assms nf1 by simp
  qed
  obtain ev2 st' where f: "fetch e i st = Inr (ev2, st')"
    using assms nf1 dl ac by (cases "fetch e i st") (auto simp: app_def g Let_def)
  obtain ev3 r where v: "visualization e i st' = (ev3, r)" by (cases "visualization e i st'")
  have evs: "events (app e i st) = ?ev1 @ ev2 @ export i st' @ ev3"
    and ses: "session_df (app e i st) = st'"
    using dl ac f v by (simp_all add: app_def g Let_def)
  have "StDataframe df \<notin> set ev3"
    using visualization_no_frame[of df e i st'] v by simp
  moreover have "StDataframe df \<notin> set (export i st')"
    using export_only_buttons[of "StDataframe df" i st'] by auto
  ultimately have in2: "StDataframe df \<in> set ev2"
    using assms nf1 unfolding evs by auto
  then have ok: "ev2 = [StSuccess ''Data retrieved successfully!'', StDataframe df] \<and> st' = Some df"
    using f by (auto simp: fetch_def get_connection_def open_table_def read_sql_def
        split: sum.splits option.splits)
  then show "\<exists>ev. fetch e i st = Inr (ev, Some df) \<and> StDataframe df \<in> set ev"
    using f in2 by auto
  show "session_df (app e i st) = Some df" using ses ok by simp
  show "events (app e i st) =
          fst (get_table_columns e (table_name (frequency i)))
          @ (if selected_columns i = [] then [StWarning no_columns_warning] else [])
          @ [StSuccess ''Data retrieved successfully!'', StDataframe df]
          @ export i (Some df) @ fst (visualization e i (Some df))"
    using evs ok v by (simp add: g)
qed

text \<open>
  C10. For both frequencies the date column is one of the two hidden columns. So a run
  that shows a freshly fetched frame has stored that frame, the frame has the date
  column whatever was selected, and the run does not show the plot's warning about a
  missing date column.
\<close>

theorem date_column_always_fetched:
  "date_column f \<in> set (hidden_columns f) \<and> length (hidden_columns f) = 2
   \<and> (StDataframe df \<in> set (events (app e i st)) \<longrightarrow>
        session_df (app e i st) = Some df
      \<and> date_column (frequency i) \<in> set (columns df)
      \<and> StWarning (missing_date_warning (frequency i)) \<notin> set (events (app e i st)))"
proof (intro conjI impI)
  show "date_column f \<in> set (hidden_columns f)" by (rule date_column_hidden)
  show "length (hidden_columns f) = 2" by (cases f) (simp_all add: hidden_columns_def)
next
  assume a: "StDataframe df \<in> set (events (app e i st))"
  show "session_df (app e i st) = Some df" using a by (rule app_shows_frame(3))
  from app_shows_frame(2)[OF a] obtain ev where
    "fetch e i st = Inr (ev, Some df)" "StDataframe df \<in> set ev" by blast
  then have "columns df = hidden_columns (frequency i) @ selected_columns i"
    by (rule fresh_columns)
  then show d: "date_column (frequency i) \<in> set (columns df)"
    using date_column_hidden[of "frequency i"] by simp
  have "StWarning (missing_date_warning (frequency i)) \<notin> set (fst (visualization e i (Some df)))"
    using d by (rule visualization_has_date)
  moreover have "StWarning (missing_date_warning (frequency i)) \<notin> set (export i (Some df))"
    using export_only_buttons[of "StWarning (missing_date_warning (frequency i))" i "Some df"] by auto
  moreover have "StWarning (missing_date_warning (frequency i))
      \<notin> set (fst (get_table_columns e (table_name (frequency i))))"
    using probe_events[of "StWarning (missing_date_warning (frequency i))" e "table_name (frequency i)"]
    by auto
  ultimately show "StWarning (missing_date_warning (frequency i)) \<notin> set (events (app e i st))"
    unfolding app_shows_frame(4)[OF a] using warnings_differ[of "frequency i"] by auto
qed

lemma demo_app_empty_selection:
  "events (app demo_env (demo_inputs\<lparr>selected_columns := []\<rparr>) None) =
     [StWarning no_columns_warning, StSuccess ''Data retrieved successfully!'',
      StDataframe \<lparr>columns = [''DAILY_WEATHER_ID'', ''RECORD_DATE''],
                   rows = [[Integer 1, Day (2020, 1, 1)], [Integer 3, Day (2020, 1, 2)],
                           [Integer 4, Day (2020, 1, 3)]]\<rparr>,
      StDownloadButton ''Download as CSV'' ''weather_data.csv'',
      StSubheader ''Data Visualization'', StPyplot []]"
  by (simp add: app_def get_table_columns_def get_connection_def fetch_def query_def read_sql_def demo_env_def
      demo_inputs_def open_table_def table_path_def table_name_def daily_table_def
      hidden_columns_def columns_to_select_def date_column_def matches_def cell_at_def
      day_of_def export_def visualization_def df_empty_def)

theorem date_column_always_fetched_witness:
  "StDataframe \<lparr>columns = [''DAILY_WEATHER_ID'', ''RECORD_DATE''],
                rows = [[Integer 1, Day (2020, 1, 1)], [Integer 3, Day (2020, 1, 2)],
                        [Integer 4, Day (2020, 1, 3)]]\<rparr>
     \<in> set (events (app demo_env (demo_inputs\<lparr>selected_columns := []\<rparr>) None))
   \<and> date_column Daily \<in> set [''DAILY_WEATHER_ID'', ''RECORD_DATE'']
   \<and> StWarning (missing_date_warning Daily)
        \<notin> set (events (app demo_env (demo_inputs\<lparr>selected_columns := []\<rparr>) None))"
proof -
  let ?df = "\<lparr>columns = [''DAILY_WEATHER_ID'', ''RECORD_DATE''],
                rows = [[Integer 1, Day (2020, 1, 1)], [Integer 3, Day (2020, 1, 2)],
                        [Integer 4, Day (2020, 1, 3)]]\<rparr>"
  let ?i = "demo_inputs\<lparr>selected_columns := []\<rparr>"
  have a: "StDataframe ?df \<in> set (events (app demo_env ?i None))"
    by (simp add: demo_app_empty_selection)
  have f: "frequency ?i = Daily" by (simp add: demo_inputs_def)
  show ?thesis
    using date_column_always_fetched [of Daily ?df demo_env ?i None] a f by simp
qed

subsection \<open>What goes into the text of the statement\<close>

lemma selectable_columns_subset:
  "set (selectable_columns f all_columns) \<subseteq> set all_columns - {''COUNTRY_CODE''} - set (hidden_columns f)"
  by (auto simp: selectable_columns_def)

text \<open>
  C8, as the claim states it, fails on the demo inputs: the text handed to the warehouse
  has the country code and both dates written into it between quotes, and no
  parameter is passed beside the text.
\<close>

theorem literals_bound_as_parameters_counterexample:
  "query (snowflake demo_env) (frequency demo_inputs) (country demo_inputs)
     (date_range demo_inputs) (selected_columns demo_inputs) = Inr demo_query
   \<and> country demo_inputs \<notin> set (params (read_sql_call demo_query))
   \<and> params (read_sql_call demo_query) = []
   \<and> sql (read_sql_call demo_query) =
       [CHR 0x0A] @ ''    SELECT DAILY_WEATHER_ID, RECORD_DATE, TEMP_AVG'' @
       [CHR 0x0A] @ ''    FROM WX.PUBLIC.weather_daily'' @
       [CHR 0x0A] @ ''    WHERE COUNTRY_CODE = '' @ [CHR 0x27] @ ''EE'' @ [CHR 0x27] @
       [CHR 0x0A] @ ''      AND RECORD_DATE BETWEEN '' @ [CHR 0x27] @ ''2020-01-01'' @ [CHR 0x27] @
                    '' AND '' @ [CHR 0x27] @ ''2020-01-03'' @ [CHR 0x27] @
       [CHR 0x0A] @ ''    ORDER BY RECORD_DATE'' @
       [CHR 0x0A] @ ''    ''"
  by (simp add: query_def demo_env_def demo_inputs_def demo_query_def columns_to_select_def
      hidden_columns_def table_path_def table_name_def date_column_def read_sql_call_def
      query_text_def quoted_def str_date_def zfill_def)

text \<open>
  C8, amended. Every identifier in the statement is a fixed name or one of the options
  the multiselect offered: the table is one of the two fixed table names under the
  configured database and schema, the date column is one of the two fixed date columns,
  and every projected column is a fixed hidden column or a column of the probed table
  other than the country column. The country code and the two dates are written into
  the text between single quotes, and no parameter is passed beside the text.
\<close>

theorem query_identifiers_and_literals:
  assumes "query s f c dr sel = Inr q"
    and "set sel \<subseteq> set (selectable_columns f all_columns)"
  shows "source q = database s @ ''.'' @ schema s @ ''.'' @ table_name f
       \<and> table_name f \<in> {''weather_daily'', ''weather_weekly''}
       \<and> date_col q \<in> {''RECORD_DATE'', ''RECORD_WEEK''}
       \<and> set (projection q) \<subseteq>
            {''DAILY_WEATHER_ID'', ''RECORD_DATE'', ''WEEKLY_WEATHER_ID'', ''RECORD_WEEK''}
            \<union> (set all_columns - {''COUNTRY_CODE''})
       \<and> params (read_sql_call q) = []
       \<and> (\<exists>d0 d1 rest. dr = d0 # d1 # rest
            \<and> sql (read_sql_call q) =
                [CHR 0x0A] @ ''    SELECT '' @ join '', '' (hidden_columns f @ sel) @
                [CHR 0x0A] @ ''    FROM '' @ database s @ ''.'' @ schema s @ ''.'' @ table_name f @
                [CHR 0x0A] @ ''    WHERE COUNTRY_CODE = '' @ [CHR 0x27] @ c @ [CHR 0x27] @
                [CHR 0x0A] @ ''      AND '' @ date_column f @ '' BETWEEN '' @
                             [CHR 0x27] @ str_date d0 @ [CHR 0x27] @
                             '' AND '' @ [CHR 0x27] @ str_date d1 @ [CHR 0x27] @
                [CHR 0x0A] @ ''    ORDER BY '' @ date_column f @
                [CHR 0x0A] @ ''    '')"
proof -
  from assms(1) obtain d0 d1 rest where dr: "dr = d0 # d1 # rest"
    and qe: "q = \<lparr>projection = hidden_columns f @ sel, source = table_path s (table_name f),
              country_code = c, date_col = date_column f, date_from = d0, date_to = d1\<rparr>"
    by (rule query_Inr)
  have a: "source q = database s @ ''.'' @ schema s @ ''.'' @ table_name f"
    by (simp add: qe table_path_def)
  have b: "table_name f \<in> {''weather_daily'', ''weather_weekly''}"
    by (cases f) (simp_all add: table_name_def)
  have c: "date_col q \<in> {''RECORD_DATE'', ''RECORD_WEEK''}"
    by (cases f) (simp_all add: qe date_column_def)
  have h1: "set (hidden_columns f) \<subseteq>
      {''DAILY_WEATHER_ID'', ''RECORD_DATE'', ''WEEKLY_WEATHER_ID'', ''RECORD_WEEK''}"
    by (cases f) (simp_all add: hidden_columns_def)
  have h2: "set sel \<subseteq> set all_columns - {''COUNTRY_CODE''}"
    using assms(2) selectable_columns_subset[of f all_columns] by blast
  have p: "set (projection q) = set (hidden_columns f) \<union> set sel"
    by (simp add: qe)
  have d: "set (projection q) \<subseteq>
      {''DAILY_WEATHER_ID'', ''RECORD_DATE'', ''WEEKLY_WEATHER_ID'', ''RECORD_WEEK''}
      \<union> (set all_columns - {''COUNTRY_CODE''})"
    unfolding p using h1 h2 by (rule Un_mono)
  have e: "params (read_sql_call q) = []" by (simp add: read_sql_call_def)
  have t: "sql (read_sql_call q) =
                [CHR 0x0A] @ ''    SELECT '' @ join '', '' (hidden_columns f @ sel) @
                [CHR 0x0A] @ ''    FROM '' @ database s @ ''.'' @ schema s @ ''.'' @ table_name f @
                [CHR 0x0A] @ ''    WHERE COUNTRY_CODE = '' @ [CHR 0x27] @ c @ [CHR 0x27] @
                [CHR 0x0A] @ ''      AND '' @ date_column f @ '' BETWEEN '' @
                             [CHR 0x27] @ str_date d0 @ [CHR 0x27] @
                             '' AND '' @ [CHR 0x27] @ str_date d1 @ [CHR 0x27] @
                [CHR 0x0A] @ ''    ORDER BY '' @ date_column f @
                [CHR 0x0A] @ ''    ''"
    by (simp add: read_sql_call_def query_text_def qe quoted_def table_path_def)
  have ex: "\<exists>d0 d1 rest. dr = d0 # d1 # rest
            \<and> sql (read_sql_call q) =
                [CHR 0x0A] @ ''    SELECT '' @ join '', '' (hidden_columns f @ sel) @
                [CHR 0x0A] @ ''    FROM '' @ database s @ ''.'' @ schema s @ ''.'' @ table_name f @
                [CHR 0x0A] @ ''    WHERE COUNTRY_CODE = '' @ [CHR 0x27] @ c @ [CHR 0x27] @
                [CHR 0x0A] @ ''      AND '' @ date_column f @ '' BETWEEN '' @
                             [CHR 0x27] @ str_date d0 @ [CHR 0x27] @
                             '' AND '' @ [CHR 0x27] @ str_date d1 @ [CHR 0x27] @
                [CHR 0x0A] @ ''    ORDER BY '' @ date_column f @
                [CHR 0x0A] @ ''    ''"
    by (rule exI[of _ d0], rule exI[of _ d1], rule exI[of _ rest], rule conjI[OF dr t])
  show ?thesis by (intro conjI; (rule a b c d e ex))
qed

theorem query_identifiers_and_literals_witness:
  "query (snowflake demo_env) Daily ''EE'' [(2020, 1, 1), (2020, 1, 3)] [''TEMP_AVG'']
     = Inr demo_query
   \<and> set [''TEMP_AVG''] \<subseteq> set (selectable_columns Daily (columns daily_table))
   \<and> source demo_query = ''WX.PUBLIC.weather_daily''
   \<and> set (projection demo_query) \<subseteq>
        {''DAILY_WEATHER_ID'', ''RECORD_DATE'', ''WEEKLY_WEATHER_ID'', ''RECORD_WEEK''}
        \<union> (set (columns daily_table) - {''COUNTRY_CODE''})
   \<and> params (read_sql_call demo_query) = []"
proof -
  have q: "query (snowflake demo_env) Daily ''EE'' [(2020, 1, 1), (2020, 1, 3)] [''TEMP_AVG'']
     = Inr demo_query"
    by (simp add: query_def demo_env_def demo_query_def columns_to_select_def
        hidden_columns_def table_path_def table_name_def date_column_def)
  have s: "set [''TEMP_AVG''] \<subseteq> set (selectable_columns Daily (columns daily_table))"
    by (simp add: selectable_columns_def daily_table_def hidden_columns_def)
  have n: "database (snowflake demo_env) @ ''.'' @ schema (snowflake demo_env) @ ''.''
            @ table_name Daily = ''WX.PUBLIC.weather_daily''"
    by (simp add: demo_env_def table_name_def)
  note th = query_identifiers_and_literals [OF q s]
  have a: "source demo_query = ''WX.PUBLIC.weather_daily''"
    using th [THEN conjunct1] unfolding n .
  have b: "set (projection demo_query) \<subseteq>
        {''DAILY_WEATHER_ID'', ''RECORD_DATE'', ''WEEKLY_WEATHER_ID'', ''RECORD_WEEK''}
        \<union> (set (columns daily_table) - {''COUNTRY_CODE''})"
    using th [THEN conjunct2, THEN conjunct2, THEN conjunct2, THEN conjunct1] .
  have c: "params (read_sql_call demo_query) = []"
    using th [THEN conjunct2, THEN conjunct2, THEN conjunct2, THEN conjunct2, THEN conjunct1] .
  show ?thesis by (intro conjI; (rule q s a b c))
qed

end
